theory Spec2Isabelle
  imports Main
begin

section \<open>Data model\<close>

text \<open>
  The reconciler of \<^verbatim>\<open>pkg/controller/keycloakclient/keycloakclient_reconciler.go\<close>
  reads two fields of a role, \<^verbatim>\<open>ID\<close> and \<^verbatim>\<open>Name\<close>. Go strings are
  byte sequences; the empty string is \<open>''''\<close>. The struct declarations of the packages
  \<^verbatim>\<open>v1alpha1\<close> and \<^verbatim>\<open>common\<close> are outside the file, so each record below has
  the fields that the file reads or sets. A role is a value: \<^verbatim>\<open>role.DeepCopy()\<close>
  gives an equal role, and the model passes the role itself.
\<close>

record RoleRepresentation =
  ID :: string
  Name :: string

text \<open>The zero value of the struct, which a Go map returns for a key it does not hold.\<close>

definition zeroRole :: RoleRepresentation where
  "zeroRole = \<lparr>ID = '''', Name = ''''\<rparr>"

text \<open>
  The custom resource \<^verbatim>\<open>cr\<close>. The fields are the ones the file reads:
  \<^verbatim>\<open>cr.Namespace\<close>, \<^verbatim>\<open>cr.DeletionTimestamp\<close> (a pointer, compared with nil
  only; a set timestamp is \<open>Some\<close> of a number), \<^verbatim>\<open>cr.Spec.Client.ClientID\<close> and
  \<^verbatim>\<open>cr.Spec.Roles\<close>. Each selector path is one field of the record: the model has
  the value at the end of the path, and \<^verbatim>\<open>cr\<close> and \<^verbatim>\<open>cr.Spec.Client\<close> are
  taken to be present.
\<close>

record KeycloakClient =
  Namespace :: string
  DeletionTimestamp :: "nat option"
  Spec_Client_ClientID :: string
  Spec_Roles :: "RoleRepresentation list"

text \<open>
  The observed state: \<^verbatim>\<open>state.Client\<close> and \<^verbatim>\<open>state.ClientSecret\<close> are pointers
  (nil is \<open>None\<close>), \<^verbatim>\<open>state.Roles\<close> a slice, and the realm name is read through
  \<^verbatim>\<open>state.Realm.Spec.Realm.Realm\<close>, again one field of the record, with the realm
  taken to be present.
\<close>

record ('c, 's) ClientState =
  Client :: "'c option"
  ClientSecret :: "'s option"
  Roles :: "RoleRepresentation list"
  Realm_Spec_Realm_Realm :: string

text \<open>
  The action structs of package \<^verbatim>\<open>common\<close>, one constructor for each struct
  literal of the file, with the fields in the order the file sets them. The
  \<^verbatim>\<open>Ref\<close> of the two generic actions is a cluster object of type \<open>'o\<close>.
\<close>

datatype 'o ClusterAction =
    PingAction string
  | DeleteClientAction KeycloakClient string string
  | CreateClientAction KeycloakClient string string
  | UpdateClientAction KeycloakClient string string
  | GenericCreateAction 'o string
  | GenericUpdateAction 'o string
  | CreateClientRoleAction RoleRepresentation KeycloakClient string string
  | UpdateClientRoleAction RoleRepresentation RoleRepresentation KeycloakClient string string
  | DeleteClientRoleAction RoleRepresentation KeycloakClient string string

text \<open>
  Modelled from the spec: \<^verbatim>\<open>common.DesiredClusterState\<close> and its method
  \<^verbatim>\<open>AddAction\<close> are declared outside the file. The spec describes the result as an
  ordered sequence of actions, so the state is a list and \<^verbatim>\<open>AddAction\<close> appends.
\<close>

definition AddAction :: "'o ClusterAction list \<Rightarrow> 'o ClusterAction \<Rightarrow> 'o ClusterAction list" where
  "AddAction desired action = desired @ [action]"

section \<open>Action constructors\<close>

text \<open>\<^verbatim>\<open>fmt.Sprintf\<close> with \<^verbatim>\<open>%v\<close> on strings is concatenation.\<close>

definition pingKeycloak :: "'o ClusterAction" where
  "pingKeycloak = PingAction ''check if keycloak is available''"

definition getDeletedClientState :: "('c, 's) ClientState \<Rightarrow> KeycloakClient \<Rightarrow> 'o ClusterAction" where
  "getDeletedClientState state cr =
     DeleteClientAction cr (Realm_Spec_Realm_Realm state)
       (''removing client '' @ Namespace cr @ ''/'' @ Spec_Client_ClientID cr)"

definition getCreatedClientState :: "('c, 's) ClientState \<Rightarrow> KeycloakClient \<Rightarrow> 'o ClusterAction" where
  "getCreatedClientState state cr =
     CreateClientAction cr (Realm_Spec_Realm_Realm state)
       (''create client '' @ Namespace cr @ ''/'' @ Spec_Client_ClientID cr)"

text \<open>
  \<^verbatim>\<open>model.ClientSecretReconciled\<close> and \<^verbatim>\<open>model.ClientSecret\<close> live in another
  package; the two secret constructors take them as the parameters
  \<open>clientSecretReconciled\<close> and \<open>clientSecret\<close>.
\<close>

definition getUpdatedClientSecretState ::
  "(KeycloakClient \<Rightarrow> 's option \<Rightarrow> 'o) \<Rightarrow> ('c, 's) ClientState \<Rightarrow> KeycloakClient \<Rightarrow> 'o ClusterAction" where
  "getUpdatedClientSecretState clientSecretReconciled state cr =
     GenericUpdateAction (clientSecretReconciled cr (ClientSecret state))
       (''update client secret '' @ Namespace cr @ ''/'' @ Spec_Client_ClientID cr)"

definition getUpdatedClientState :: "('c, 's) ClientState \<Rightarrow> KeycloakClient \<Rightarrow> 'o ClusterAction" where
  "getUpdatedClientState state cr =
     UpdateClientAction cr (Realm_Spec_Realm_Realm state)
       (''update client '' @ Namespace cr @ ''/'' @ Spec_Client_ClientID cr)"

definition getCreatedClientSecretState ::
  "(KeycloakClient \<Rightarrow> 'o) \<Rightarrow> ('c, 's) ClientState \<Rightarrow> KeycloakClient \<Rightarrow> 'o ClusterAction" where
  "getCreatedClientSecretState clientSecret state cr =
     GenericCreateAction (clientSecret cr)
       (''create client secret '' @ Namespace cr @ ''/'' @ Spec_Client_ClientID cr)"

definition getCreatedClientRoleState ::
  "('c, 's) ClientState \<Rightarrow> KeycloakClient \<Rightarrow> RoleRepresentation \<Rightarrow> 'o ClusterAction" where
  "getCreatedClientRoleState state cr role =
     CreateClientRoleAction role cr (Realm_Spec_Realm_Realm state)
       (''create client role '' @ Namespace cr @ ''/'' @ Spec_Client_ClientID cr @ ''/'' @ Name role)"

definition getUpdatedClientRoleState ::
  "('c, 's) ClientState \<Rightarrow> KeycloakClient \<Rightarrow> RoleRepresentation \<Rightarrow> RoleRepresentation \<Rightarrow> 'o ClusterAction" where
  "getUpdatedClientRoleState state cr role oldRole =
     UpdateClientRoleAction role oldRole cr (Realm_Spec_Realm_Realm state)
       (''update client role '' @ Namespace cr @ ''/'' @ Spec_Client_ClientID cr @ ''/'' @ Name oldRole)"

definition getDeletedClientRoleState ::
  "('c, 's) ClientState \<Rightarrow> KeycloakClient \<Rightarrow> RoleRepresentation \<Rightarrow> 'o ClusterAction" where
  "getDeletedClientRoleState state cr role =
     DeleteClientRoleAction role cr (Realm_Spec_Realm_Realm state)
       (''delete client role '' @ Namespace cr @ ''/'' @ Spec_Client_ClientID cr @ ''/'' @ Name role)"

section \<open>The matcher\<close>

definition roleMatches :: "RoleRepresentation \<Rightarrow> RoleRepresentation \<Rightarrow> bool" where
  "roleMatches a b =
     (if ID a \<noteq> '''' \<and> ID b \<noteq> '''' then ID a = ID b else Name a = Name b)"

fun hasMatchingRole :: "RoleRepresentation list \<Rightarrow> RoleRepresentation \<Rightarrow> bool" where
  "hasMatchingRole [] otherRole = False"
| "hasMatchingRole (role # roles) otherRole =
     (if roleMatches role otherRole then True else hasMatchingRole roles otherRole)"

text \<open>
  The loop of \<^verbatim>\<open>roleDifferenceIntersection\<close> with its two result slices \<open>d\<close> and
  \<open>i\<close> as accumulators; both start nil.
\<close>

fun roleDifferenceIntersection_loop ::
  "RoleRepresentation list \<Rightarrow> RoleRepresentation list \<Rightarrow>
   RoleRepresentation list \<times> RoleRepresentation list \<Rightarrow>
   RoleRepresentation list \<times> RoleRepresentation list" where
  "roleDifferenceIntersection_loop [] b (d, i) = (d, i)"
| "roleDifferenceIntersection_loop (role # a) b (d, i) =
     (if hasMatchingRole b role
      then roleDifferenceIntersection_loop a b (d, i @ [role])
      else roleDifferenceIntersection_loop a b (d @ [role], i))"

definition roleDifferenceIntersection ::
  "RoleRepresentation list \<Rightarrow> RoleRepresentation list \<Rightarrow>
   RoleRepresentation list \<times> RoleRepresentation list" where
  "roleDifferenceIntersection a b = roleDifferenceIntersection_loop a b ([], [])"

section \<open>Role reconciliation\<close>

text \<open>The index \<^verbatim>\<open>existingRoleByID\<close>: a later role with the same id overwrites.\<close>

definition existingRoleByID :: "RoleRepresentation list \<Rightarrow> (string \<rightharpoonup> RoleRepresentation)" where
  "existingRoleByID roles = foldl (\<lambda>m role. m(ID role \<mapsto> role)) Map.empty roles"

text \<open>\<^verbatim>\<open>oldRole := existingRoleByID[role.ID]\<close>: the zero value when the key is missing.\<close>

definition lookupRole :: "(string \<rightharpoonup> RoleRepresentation) \<Rightarrow> string \<Rightarrow> RoleRepresentation" where
  "lookupRole m k = (case m k of None \<Rightarrow> zeroRole | Some r \<Rightarrow> r)"

text \<open>
  The body of the first loop over \<^verbatim>\<open>rolesMatching\<close> (source lines 67 to 75). Its
  state is the action list together with the map \<^verbatim>\<open>renamedRolesOldNames\<close>.
\<close>

definition updateStep ::
  "('c, 's) ClientState \<Rightarrow> KeycloakClient \<Rightarrow> (string \<rightharpoonup> RoleRepresentation) \<Rightarrow>
   'o ClusterAction list \<times> (string \<rightharpoonup> bool) \<Rightarrow> RoleRepresentation \<Rightarrow>
   'o ClusterAction list \<times> (string \<rightharpoonup> bool)" where
  "updateStep state cr byID acc role =
     (case acc of (desired, renamedRolesOldNames) \<Rightarrow>
        if ID role \<noteq> '''' then
          (let oldRole = lookupRole byID (ID role);
               desired' = AddAction desired (getUpdatedClientRoleState state cr role oldRole)
           in if Name role \<noteq> Name oldRole
              then (desired', renamedRolesOldNames(Name oldRole \<mapsto> True))
              else (desired', renamedRolesOldNames))
        else (desired, renamedRolesOldNames))"

text \<open>The body of the second loop over \<^verbatim>\<open>rolesMatching\<close> (source lines 80 to 88).\<close>

definition recreateStep ::
  "('c, 's) ClientState \<Rightarrow> KeycloakClient \<Rightarrow> (string \<rightharpoonup> bool) \<Rightarrow>
   'o ClusterAction list \<Rightarrow> RoleRepresentation \<Rightarrow> 'o ClusterAction list" where
  "recreateStep state cr renamedRolesOldNames desired role =
     (if ID role = '''' then
        (if renamedRolesOldNames (Name role) \<noteq> None
         then AddAction desired (getCreatedClientRoleState state cr role)
         else AddAction desired (getUpdatedClientRoleState state cr role role))
      else desired)"

definition ReconcileRoles ::
  "('c, 's) ClientState \<Rightarrow> KeycloakClient \<Rightarrow> 'o ClusterAction list \<Rightarrow> 'o ClusterAction list" where
  "ReconcileRoles state cr desired =
     (let rolesDeleted = fst (roleDifferenceIntersection (Roles state) (Spec_Roles cr));
          desired1 = foldl (\<lambda>d role. AddAction d (getDeletedClientRoleState state cr role))
                       desired rolesDeleted;
          byID = existingRoleByID (Roles state);
          rolesMatching = snd (roleDifferenceIntersection (Spec_Roles cr) (Roles state));
          (desired2, renamedRolesOldNames) =
             foldl (updateStep state cr byID) (desired1, Map.empty) rolesMatching;
          desired3 = foldl (recreateStep state cr renamedRolesOldNames) desired2 rolesMatching;
          rolesNew = fst (roleDifferenceIntersection (Spec_Roles cr) (Roles state));
          desired4 = foldl (\<lambda>d role. AddAction d (getCreatedClientRoleState state cr role))
                       desired3 rolesNew
      in desired4)"

section \<open>Reconcile\<close>

definition Reconcile ::
  "(KeycloakClient \<Rightarrow> 'o) \<Rightarrow> (KeycloakClient \<Rightarrow> 's option \<Rightarrow> 'o) \<Rightarrow>
   ('c, 's) ClientState \<Rightarrow> KeycloakClient \<Rightarrow> 'o ClusterAction list" where
  "Reconcile clientSecret clientSecretReconciled state cr =
     (let desired = AddAction [] pingKeycloak in
      if DeletionTimestamp cr \<noteq> None
      then AddAction desired (getDeletedClientState state cr)
      else
        (let desired1 =
               (if Client state = None
                then AddAction desired (getCreatedClientState state cr)
                else AddAction desired (getUpdatedClientState state cr));
             desired2 =
               (if ClientSecret state = None
                then AddAction desired1 (getCreatedClientSecretState clientSecret state cr)
                else AddAction desired1 (getUpdatedClientSecretState clientSecretReconciled state cr))
         in ReconcileRoles state cr desired2))"

section \<open>Notions used by the properties\<close>

text \<open>
  The map \<^verbatim>\<open>renamedRolesOldNames\<close> as the first loop over \<^verbatim>\<open>rolesMatching\<close>
  leaves it, without the action list the loop builds beside it.
\<close>

definition renamedOldNames ::
  "(string \<rightharpoonup> RoleRepresentation) \<Rightarrow> RoleRepresentation list \<Rightarrow> (string \<rightharpoonup> bool)" where
  "renamedOldNames byID rolesMatching =
     foldl (\<lambda>renamed role.
              if ID role \<noteq> '''' \<and> Name role \<noteq> Name (lookupRole byID (ID role))
              then renamed(Name (lookupRole byID (ID role)) \<mapsto> True)
              else renamed)
       Map.empty rolesMatching"

text \<open>The kinds of action.\<close>

fun isPing :: "'o ClusterAction \<Rightarrow> bool" where
  "isPing (PingAction msg) = True"
| "isPing _ = False"

fun isClientAction :: "'o ClusterAction \<Rightarrow> bool" where
  "isClientAction (DeleteClientAction ref realm msg) = True"
| "isClientAction (CreateClientAction ref realm msg) = True"
| "isClientAction (UpdateClientAction ref realm msg) = True"
| "isClientAction _ = False"

fun isSecretAction :: "'o ClusterAction \<Rightarrow> bool" where
  "isSecretAction (GenericCreateAction ref msg) = True"
| "isSecretAction (GenericUpdateAction ref msg) = True"
| "isSecretAction _ = False"

fun isCreateRole :: "'o ClusterAction \<Rightarrow> bool" where
  "isCreateRole (CreateClientRoleAction role ref realm msg) = True"
| "isCreateRole _ = False"

fun isUpdateRole :: "'o ClusterAction \<Rightarrow> bool" where
  "isUpdateRole (UpdateClientRoleAction role oldRole ref realm msg) = True"
| "isUpdateRole _ = False"

fun isDeleteRole :: "'o ClusterAction \<Rightarrow> bool" where
  "isDeleteRole (DeleteClientRoleAction role ref realm msg) = True"
| "isDeleteRole _ = False"

text \<open>The role an action creates or updates to (its \<^verbatim>\<open>Role\<close> field), if it is one of the two.\<close>

fun newPayload :: "'o ClusterAction \<Rightarrow> RoleRepresentation option" where
  "newPayload (CreateClientRoleAction role ref realm msg) = Some role"
| "newPayload (UpdateClientRoleAction role oldRole ref realm msg) = Some role"
| "newPayload _ = None"

text \<open>The \<^verbatim>\<open>OldRole\<close> field of an update.\<close>

fun oldPayload :: "'o ClusterAction \<Rightarrow> RoleRepresentation option" where
  "oldPayload (UpdateClientRoleAction role oldRole ref realm msg) = Some oldRole"
| "oldPayload _ = None"

text \<open>The role a delete action carries.\<close>

fun deletedPayload :: "'o ClusterAction \<Rightarrow> RoleRepresentation option" where
  "deletedPayload (DeleteClientRoleAction role ref realm msg) = Some role"
| "deletedPayload _ = None"

text \<open>Concrete inputs for the examples: a role, an observed state, a custom resource.\<close>

abbreviation mkRole :: "string \<Rightarrow> string \<Rightarrow> RoleRepresentation" where
  "mkRole i n \<equiv> \<lparr>ID = i, Name = n\<rparr>"

abbreviation mkState :: "RoleRepresentation list \<Rightarrow> (unit, unit) ClientState" where
  "mkState roles \<equiv>
     \<lparr>Client = None, ClientSecret = None, Roles = roles, Realm_Spec_Realm_Realm = ''realm''\<rparr>"

abbreviation mkCr :: "nat option \<Rightarrow> RoleRepresentation list \<Rightarrow> KeycloakClient" where
  "mkCr ts roles \<equiv>
     \<lparr>Namespace = ''ns'', DeletionTimestamp = ts, Spec_Client_ClientID = ''cid'', Spec_Roles = roles\<rparr>"

section \<open>The loops in closed form\<close>

lemma hasMatchingRole_iff: "hasMatchingRole roles r \<longleftrightarrow> (\<exists>x\<in>set roles. roleMatches x r)"
  by (induction roles) auto

lemma roleMatches_sym: "roleMatches a b = roleMatches b a"
  by (auto simp: roleMatches_def)

lemma rdi_loop_eq:
  "roleDifferenceIntersection_loop a b (d, i) =
     (d @ filter (\<lambda>r. \<not> hasMatchingRole b r) a, i @ filter (hasMatchingRole b) a)"
  by (induction a arbitrary: d i) auto

lemma rdi_eq:
  "roleDifferenceIntersection a b =
     (filter (\<lambda>r. \<not> hasMatchingRole b r) a, filter (hasMatchingRole b) a)"
  by (simp add: roleDifferenceIntersection_def rdi_loop_eq)

lemma foldl_AddAction: "foldl (\<lambda>d role. AddAction d (f role)) desired xs = desired @ map f xs"
  by (induction xs arbitrary: desired) (auto simp: AddAction_def)

lemma renamed_foldl_gen:
  "foldl (updateStep state cr byID) (d, rn) xs =
     (d @ map (\<lambda>r. getUpdatedClientRoleState state cr r (lookupRole byID (ID r)))
            (filter (\<lambda>r. ID r \<noteq> '''') xs),
      foldl (\<lambda>renamed role.
              if ID role \<noteq> '''' \<and> Name role \<noteq> Name (lookupRole byID (ID role))
              then renamed(Name (lookupRole byID (ID role)) \<mapsto> True)
              else renamed) rn xs)"
  by (induction xs arbitrary: d rn) (auto simp: updateStep_def AddAction_def Let_def)

lemma foldl_updateStep:
  "foldl (updateStep state cr byID) (d, Map.empty) xs =
     (d @ map (\<lambda>r. getUpdatedClientRoleState state cr r (lookupRole byID (ID r)))
            (filter (\<lambda>r. ID r \<noteq> '''') xs),
      renamedOldNames byID xs)"
  by (simp add: renamed_foldl_gen renamedOldNames_def)

lemma foldl_recreateStep:
  "foldl (recreateStep state cr rn) d xs =
     d @ map (\<lambda>r. if rn (Name r) \<noteq> None then getCreatedClientRoleState state cr r
                   else getUpdatedClientRoleState state cr r r)
           (filter (\<lambda>r. ID r = '''') xs)"
  by (induction xs arbitrary: d) (auto simp: recreateStep_def AddAction_def)

lemma ReconcileRoles_eq:
  "ReconcileRoles state cr desired =
     desired
     @ map (getDeletedClientRoleState state cr)
         (filter (\<lambda>r. \<not> hasMatchingRole (Spec_Roles cr) r) (Roles state))
     @ map (\<lambda>r. getUpdatedClientRoleState state cr r (lookupRole (existingRoleByID (Roles state)) (ID r)))
         (filter (\<lambda>r. ID r \<noteq> '''') (filter (hasMatchingRole (Roles state)) (Spec_Roles cr)))
     @ map (\<lambda>r. if renamedOldNames (existingRoleByID (Roles state))
                      (filter (hasMatchingRole (Roles state)) (Spec_Roles cr)) (Name r) \<noteq> None
                 then getCreatedClientRoleState state cr r
                 else getUpdatedClientRoleState state cr r r)
         (filter (\<lambda>r. ID r = '''') (filter (hasMatchingRole (Roles state)) (Spec_Roles cr)))
     @ map (getCreatedClientRoleState state cr)
         (filter (\<lambda>r. \<not> hasMatchingRole (Roles state) r) (Spec_Roles cr))"
  by (simp add: ReconcileRoles_def Let_def rdi_eq foldl_AddAction foldl_updateStep foldl_recreateStep)

lemma renamed_fold_iff:
  "foldl (\<lambda>renamed role.
              if ID role \<noteq> '''' \<and> Name role \<noteq> Name (lookupRole byID (ID role))
              then renamed(Name (lookupRole byID (ID role)) \<mapsto> True)
              else renamed) rn xs n \<noteq> None \<longleftrightarrow>
   rn n \<noteq> None \<or> (\<exists>r\<in>set xs. ID r \<noteq> '''' \<and> Name r \<noteq> Name (lookupRole byID (ID r)) \<and> Name (lookupRole byID (ID r)) = n)"
  by (induction xs arbitrary: rn) auto

lemma renamedOldNames_iff:
  "renamedOldNames byID xs n \<noteq> None \<longleftrightarrow>
   (\<exists>r\<in>set xs. ID r \<noteq> '''' \<and> Name r \<noteq> Name (lookupRole byID (ID r)) \<and> Name (lookupRole byID (ID r)) = n)"
  unfolding renamedOldNames_def by (subst renamed_fold_iff) simp

lemma existingRoleByID_snoc:
  "existingRoleByID (roles @ [x]) = (existingRoleByID roles)(ID x \<mapsto> x)"
  by (simp add: existingRoleByID_def)

lemma existingRoleByID_last:
  "existingRoleByID roles k =
     (if k \<in> ID ` set roles then Some (last (filter (\<lambda>r. ID r = k) roles)) else None)"
proof (induction roles rule: rev_induct)
  case Nil
  show ?case by (simp add: existingRoleByID_def)
next
  case (snoc x xs)
  show ?case
    unfolding existingRoleByID_snoc using snoc.IH
    by (auto simp: filter_empty_conv image_iff)
qed

lemma existingRoleByID_Some:
  "existingRoleByID roles k = Some r \<Longrightarrow> r \<in> set roles \<and> ID r = k"
proof -
  assume a: "existingRoleByID roles k = Some r"
  then have k: "k \<in> ID ` set roles" and r: "r = last (filter (\<lambda>r. ID r = k) roles)"
    by (auto simp: existingRoleByID_last split: if_splits)
  from k have ne: "filter (\<lambda>r. ID r = k) roles \<noteq> []"
    by (auto simp: filter_empty_conv)
  from last_in_set[OF ne] r show ?thesis by auto
qed

lemma existingRoleByID_None:
  "existingRoleByID roles k = None \<longleftrightarrow> k \<notin> ID ` set roles"
  by (simp add: existingRoleByID_last)

lemma lookupRole_hit:
  "k \<in> ID ` set roles \<Longrightarrow>
     lookupRole (existingRoleByID roles) k \<in> set roles \<and> ID (lookupRole (existingRoleByID roles) k) = k"
  by (cases "existingRoleByID roles k")
     (auto simp: lookupRole_def existingRoleByID_None dest: existingRoleByID_Some)

lemma lookupRole_miss:
  "k \<notin> ID ` set roles \<Longrightarrow> lookupRole (existingRoleByID roles) k = zeroRole"
  by (simp add: lookupRole_def existingRoleByID_None[symmetric])

section \<open>Facts about the role actions\<close>

lemma filter_map_none: "(\<And>x. \<not> P (f x)) \<Longrightarrow> filter P (map f xs) = []"
  by (induction xs) auto

lemma roleActions_no_ping: "filter isPing (ReconcileRoles state cr []) = []"
  by (simp add: ReconcileRoles_eq filter_map_none getDeletedClientRoleState_def
      getUpdatedClientRoleState_def getCreatedClientRoleState_def)

lemma roleActions_no_client: "filter isClientAction (ReconcileRoles state cr []) = []"
  by (simp add: ReconcileRoles_eq filter_map_none getDeletedClientRoleState_def
      getUpdatedClientRoleState_def getCreatedClientRoleState_def)

lemma roleActions_no_secret: "filter isSecretAction (ReconcileRoles state cr []) = []"
  by (simp add: ReconcileRoles_eq filter_map_none getDeletedClientRoleState_def
      getUpdatedClientRoleState_def getCreatedClientRoleState_def)

lemma ReconcileRoles_append: "ReconcileRoles state cr desired = desired @ ReconcileRoles state cr []"
  by (simp add: ReconcileRoles_eq)

section \<open>The matcher rule\<close>

text \<open>
  C2. For every pair of roles \<open>a\<close> and \<open>b\<close>, \<open>roleMatches a b\<close> holds if and only if
  both ids are non-empty and equal (whatever the names are), or at least one of the two
  ids is empty and the names are equal.
\<close>

theorem roleMatches_rule:
  "roleMatches a b \<longleftrightarrow>
     (ID a \<noteq> '''' \<and> ID b \<noteq> '''' \<and> ID a = ID b) \<or>
     ((ID a = '''' \<or> ID b = '''') \<and> Name a = Name b)"
  by (auto simp: roleMatches_def)

text \<open>
  The rule at four pairs: equal ids with different names, an empty id with equal names,
  different ids with equal names, an empty id with different names.
\<close>

theorem roleMatches_rule_witness:
  "roleMatches (mkRole ''1'' ''a'') (mkRole ''1'' ''b'') \<and>
   roleMatches (mkRole '''' ''a'') (mkRole ''7'' ''a'') \<and>
   \<not> roleMatches (mkRole ''1'' ''a'') (mkRole ''2'' ''a'') \<and>
   \<not> roleMatches (mkRole ''1'' ''a'') (mkRole '''' ''b'')"
  using roleMatches_rule [of "mkRole ''1'' ''a''" "mkRole ''1'' ''b''"]
    roleMatches_rule [of "mkRole '''' ''a''" "mkRole ''7'' ''a''"]
    roleMatches_rule [of "mkRole ''1'' ''a''" "mkRole ''2'' ''a''"]
    roleMatches_rule [of "mkRole ''1'' ''a''" "mkRole '''' ''b''"]
  by simp

section \<open>Reconcile: ping, deletion, client and secret\<close>



text \<open>
  C8. For every input, the first action of the result of \<open>Reconcile\<close> is the ping
  action, and it is the only ping action of the result: the actions that are pings are
  that one action. The statement has no condition on the deletion timestamp, so it
  covers the deletion path and the normal path.
\<close>

theorem Reconcile_ping_first:
  "take 1 (Reconcile clientSecret clientSecretReconciled state cr) = [pingKeycloak] \<and>
   filter isPing (Reconcile clientSecret clientSecretReconciled state cr) = [pingKeycloak]"
  by (simp add: Reconcile_def AddAction_def Let_def ReconcileRoles_append [of _ _ "_ # _"]
      roleActions_no_ping pingKeycloak_def getDeletedClientState_def getCreatedClientState_def
      getUpdatedClientState_def getCreatedClientSecretState_def getUpdatedClientSecretState_def)

text \<open>The same at a resource without and at one with a deletion timestamp.\<close>

theorem Reconcile_ping_first_witness:
  "take 1 (Reconcile (\<lambda>cr. ''secret'') (\<lambda>cr s. ''secret'') (mkState [mkRole ''1'' ''a''])
             (mkCr None [mkRole ''1'' ''b''])) = [PingAction ''check if keycloak is available''] \<and>
   filter isPing (Reconcile (\<lambda>cr. ''secret'') (\<lambda>cr s. ''secret'') (mkState [mkRole ''1'' ''a''])
             (mkCr None [mkRole ''1'' ''b''])) = [PingAction ''check if keycloak is available''] \<and>
   take 1 (Reconcile (\<lambda>cr. ''secret'') (\<lambda>cr s. ''secret'') (mkState [mkRole ''1'' ''a''])
             (mkCr (Some 7) [mkRole ''1'' ''b''])) = [PingAction ''check if keycloak is available''] \<and>
   filter isPing (Reconcile (\<lambda>cr. ''secret'') (\<lambda>cr s. ''secret'') (mkState [mkRole ''1'' ''a''])
             (mkCr (Some 7) [mkRole ''1'' ''b''])) = [PingAction ''check if keycloak is available'']"
  using Reconcile_ping_first [of "\<lambda>cr. ''secret''" "\<lambda>cr s. ''secret''" "mkState [mkRole ''1'' ''a'']"
      "mkCr None [mkRole ''1'' ''b'']"]
    Reconcile_ping_first [of "\<lambda>cr. ''secret''" "\<lambda>cr s. ''secret''" "mkState [mkRole ''1'' ''a'']"
      "mkCr (Some 7) [mkRole ''1'' ''b'']"]
  by (simp add: pingKeycloak_def)

text \<open>
  C9. When the deletion timestamp is not set, the client actions of the result of
  \<open>Reconcile\<close> are exactly one action: a \<open>CreateClientAction\<close> when the observed client
  is absent and an \<open>UpdateClientAction\<close> otherwise. Its secret actions are exactly one
  action: a \<open>GenericCreateAction\<close> of the new secret when the observed secret is absent
  and a \<open>GenericUpdateAction\<close> of the reconciled secret otherwise.
\<close>

theorem Reconcile_client_and_secret:
  "DeletionTimestamp cr = None \<Longrightarrow>
     filter isClientAction (Reconcile clientSecret clientSecretReconciled state cr) =
       [if Client state = None
        then CreateClientAction cr (Realm_Spec_Realm_Realm state)
               (''create client '' @ Namespace cr @ ''/'' @ Spec_Client_ClientID cr)
        else UpdateClientAction cr (Realm_Spec_Realm_Realm state)
               (''update client '' @ Namespace cr @ ''/'' @ Spec_Client_ClientID cr)] \<and>
     filter isSecretAction (Reconcile clientSecret clientSecretReconciled state cr) =
       [if ClientSecret state = None
        then GenericCreateAction (clientSecret cr)
               (''create client secret '' @ Namespace cr @ ''/'' @ Spec_Client_ClientID cr)
        else GenericUpdateAction (clientSecretReconciled cr (ClientSecret state))
               (''update client secret '' @ Namespace cr @ ''/'' @ Spec_Client_ClientID cr)]"
  by (simp add: Reconcile_def AddAction_def Let_def ReconcileRoles_append [of _ _ "_ # _"]
      roleActions_no_client roleActions_no_secret
      pingKeycloak_def getDeletedClientState_def getCreatedClientState_def
      getUpdatedClientState_def getCreatedClientSecretState_def getUpdatedClientSecretState_def)

text \<open>
  All four cases at two inputs: an absent client with a present secret gives a create
  of the client and an update of the secret; a present client with an absent secret
  gives an update of the client and a create of the secret.
\<close>

theorem Reconcile_client_and_secret_witness:
  "filter isClientAction (Reconcile (\<lambda>cr. ''new secret'') (\<lambda>cr s. ''old secret'')
       ((mkState [mkRole ''1'' ''a''])\<lparr>ClientSecret := Some ()\<rparr>) (mkCr None [mkRole ''1'' ''b''])) =
     [CreateClientAction (mkCr None [mkRole ''1'' ''b'']) ''realm'' ''create client ns/cid''] \<and>
   filter isSecretAction (Reconcile (\<lambda>cr. ''new secret'') (\<lambda>cr s. ''old secret'')
       ((mkState [mkRole ''1'' ''a''])\<lparr>ClientSecret := Some ()\<rparr>) (mkCr None [mkRole ''1'' ''b''])) =
     [GenericUpdateAction ''old secret'' ''update client secret ns/cid''] \<and>
   filter isClientAction (Reconcile (\<lambda>cr. ''new secret'') (\<lambda>cr s. ''old secret'')
       ((mkState [mkRole ''1'' ''a''])\<lparr>Client := Some ()\<rparr>) (mkCr None [mkRole ''1'' ''b''])) =
     [UpdateClientAction (mkCr None [mkRole ''1'' ''b'']) ''realm'' ''update client ns/cid''] \<and>
   filter isSecretAction (Reconcile (\<lambda>cr. ''new secret'') (\<lambda>cr s. ''old secret'')
       ((mkState [mkRole ''1'' ''a''])\<lparr>Client := Some ()\<rparr>) (mkCr None [mkRole ''1'' ''b''])) =
     [GenericCreateAction ''new secret'' ''create client secret ns/cid'']"
  using Reconcile_client_and_secret [of "mkCr None [mkRole ''1'' ''b'']"
      "\<lambda>cr. ''new secret''" "\<lambda>cr s. ''old secret''"
      "(mkState [mkRole ''1'' ''a''])\<lparr>ClientSecret := Some ()\<rparr>"]
    Reconcile_client_and_secret [of "mkCr None [mkRole ''1'' ''b'']"
      "\<lambda>cr. ''new secret''" "\<lambda>cr s. ''old secret''"
      "(mkState [mkRole ''1'' ''a''])\<lparr>Client := Some ()\<rparr>"]
  by simp

section \<open>Membership in the role actions\<close>

lemma in_ReconcileRoles_iff:
  "a \<in> set (ReconcileRoles state cr desired) \<longleftrightarrow>
     a \<in> set desired \<or>
     (\<exists>r\<in>set (Roles state). \<not> hasMatchingRole (Spec_Roles cr) r \<and>
        a = getDeletedClientRoleState state cr r) \<or>
     (\<exists>r\<in>set (Spec_Roles cr). hasMatchingRole (Roles state) r \<and> ID r \<noteq> '''' \<and>
        a = getUpdatedClientRoleState state cr r (lookupRole (existingRoleByID (Roles state)) (ID r))) \<or>
     (\<exists>r\<in>set (Spec_Roles cr). hasMatchingRole (Roles state) r \<and> ID r = '''' \<and>
        a = (if renamedOldNames (existingRoleByID (Roles state))
                  (filter (hasMatchingRole (Roles state)) (Spec_Roles cr)) (Name r) \<noteq> None
             then getCreatedClientRoleState state cr r
             else getUpdatedClientRoleState state cr r r)) \<or>
     (\<exists>r\<in>set (Spec_Roles cr). \<not> hasMatchingRole (Roles state) r \<and>
        a = getCreatedClientRoleState state cr r)"
  unfolding ReconcileRoles_eq set_append set_map set_filter by blast

lemma create_inj [simp]:
  "(getCreatedClientRoleState state cr r = (getCreatedClientRoleState state cr r' :: 'o ClusterAction)) = (r = r')"
  by (auto simp: getCreatedClientRoleState_def)

lemma update_inj [simp]:
  "(getUpdatedClientRoleState state cr r old = (getUpdatedClientRoleState state cr r' old' :: 'o ClusterAction))
     = (r = r' \<and> old = old')"
  by (auto simp: getUpdatedClientRoleState_def)

lemma delete_inj [simp]:
  "(getDeletedClientRoleState state cr r = (getDeletedClientRoleState state cr r' :: 'o ClusterAction)) = (r = r')"
  by (auto simp: getDeletedClientRoleState_def)

lemma role_action_distinct [simp]:
  "getCreatedClientRoleState state cr r \<noteq> (getUpdatedClientRoleState state cr r' old :: 'o ClusterAction)"
  "getUpdatedClientRoleState state cr r' old \<noteq> (getCreatedClientRoleState state cr r :: 'o ClusterAction)"
  "getCreatedClientRoleState state cr r \<noteq> (getDeletedClientRoleState state cr r' :: 'o ClusterAction)"
  "getDeletedClientRoleState state cr r' \<noteq> (getCreatedClientRoleState state cr r :: 'o ClusterAction)"
  "getUpdatedClientRoleState state cr r old \<noteq> (getDeletedClientRoleState state cr r' :: 'o ClusterAction)"
  "getDeletedClientRoleState state cr r' \<noteq> (getUpdatedClientRoleState state cr r old :: 'o ClusterAction)"
  by (simp_all add: getCreatedClientRoleState_def getUpdatedClientRoleState_def
      getDeletedClientRoleState_def)

lemma rolesMatching_eq:
  "snd (roleDifferenceIntersection (Spec_Roles cr) (Roles state)) =
     filter (hasMatchingRole (Roles state)) (Spec_Roles cr)"
  by (simp add: rdi_eq)


section \<open>Matched roles without an id\<close>



section \<open>Which roles the role actions carry\<close>

lemma update_in_roleActions:
  assumes "UpdateClientRoleAction role old ref realm msg \<in> set (ReconcileRoles state cr [])"
  shows "role \<in> set (Spec_Roles cr) \<and> hasMatchingRole (Roles state) role \<and>
         (ID role \<noteq> '''' \<and> old = lookupRole (existingRoleByID (Roles state)) (ID role) \<or>
          ID role = '''' \<and> old = role)"
  using assms unfolding in_ReconcileRoles_iff
  by (auto simp: getUpdatedClientRoleState_def getCreatedClientRoleState_def
      getDeletedClientRoleState_def split: if_splits)

lemma create_in_roleActions:
  assumes "CreateClientRoleAction role ref realm msg \<in> set (ReconcileRoles state cr [])"
  shows "role \<in> set (Spec_Roles cr) \<and> (hasMatchingRole (Roles state) role \<longrightarrow> ID role = '''')"
  using assms unfolding in_ReconcileRoles_iff
  by (auto simp: getUpdatedClientRoleState_def getCreatedClientRoleState_def
      getDeletedClientRoleState_def split: if_splits)

lemma delete_in_roleActions:
  assumes "DeleteClientRoleAction role ref realm msg \<in> set (ReconcileRoles state cr [])"
  shows "role \<in> set (Roles state) \<and> \<not> hasMatchingRole (Spec_Roles cr) role"
  using assms unfolding in_ReconcileRoles_iff
  by (auto simp: getUpdatedClientRoleState_def getCreatedClientRoleState_def
      getDeletedClientRoleState_def split: if_splits)

lemma matched_by_id:
  assumes "\<forall>x\<in>set roles. ID x \<noteq> ''''" and "hasMatchingRole roles r" and "ID r \<noteq> ''''"
  shows "ID r \<in> ID ` set roles"
proof -
  from assms(2) obtain x where x: "x \<in> set roles" "roleMatches x r"
    by (auto simp: hasMatchingRole_iff)
  with assms have "ID x = ID r"
    by (auto simp: roleMatches_def split: if_splits)
  with x show ?thesis by (metis imageI)
qed

lemma same_role_matches: "r \<in> set roles \<Longrightarrow> hasMatchingRole roles r"
  by (auto simp: hasMatchingRole_iff roleMatches_def)

section \<open>An id mismatch wins over a name coincidence\<close>

text \<open>
  C3. Assume that every observed role has a non-empty id. Then an observed role whose id
  is the id of no desired role, and whose name is shared only by desired roles with a
  non-empty id different from its own, gets its delete action, and no update action
  carries it as new or as previous role. And every desired role with a non-empty id
  that no observed role has gets its create action, and no update action carries it,
  whatever its name is. So an observed and a desired role that share a name and not an
  id give a delete of the one and a create of the other.
\<close>

theorem id_mismatch_delete_create:
  fixes desired :: "'o ClusterAction list"
  assumes "\<forall>x\<in>set (Roles state). ID x \<noteq> ''''"
  shows "(\<forall>x\<in>set (Roles state).
            (\<forall>d\<in>set (Spec_Roles cr). ID d \<noteq> ID x) \<and>
            (\<forall>d\<in>set (Spec_Roles cr). Name d = Name x \<longrightarrow> ID d \<noteq> '''' \<and> ID d \<noteq> ID x) \<longrightarrow>
            getDeletedClientRoleState state cr x \<in> set (ReconcileRoles state cr desired) \<and>
            (\<forall>role old ref realm msg.
               UpdateClientRoleAction role old ref realm msg
                 \<in> set (ReconcileRoles state cr ([] :: 'o ClusterAction list)) \<longrightarrow>
               role \<noteq> x \<and> old \<noteq> x)) \<and>
         (\<forall>d\<in>set (Spec_Roles cr). ID d \<noteq> '''' \<and> ID d \<notin> ID ` set (Roles state) \<longrightarrow>
            getCreatedClientRoleState state cr d \<in> set (ReconcileRoles state cr desired) \<and>
            (\<forall>role old ref realm msg.
               UpdateClientRoleAction role old ref realm msg
                 \<in> set (ReconcileRoles state cr ([] :: 'o ClusterAction list)) \<longrightarrow>
               role \<noteq> d \<and> old \<noteq> d))"
proof (intro conjI ballI impI allI)
  fix x
  assume x: "x \<in> set (Roles state)"
    and c: "(\<forall>d\<in>set (Spec_Roles cr). ID d \<noteq> ID x) \<and>
            (\<forall>d\<in>set (Spec_Roles cr). Name d = Name x \<longrightarrow> ID d \<noteq> '''' \<and> ID d \<noteq> ID x)"
  from assms x have idx: "ID x \<noteq> ''''" by simp
  have nomatch: "\<not> hasMatchingRole (Spec_Roles cr) x"
    using c idx by (auto simp: hasMatchingRole_iff roleMatches_def split: if_splits)
  show "getDeletedClientRoleState state cr x \<in> set (ReconcileRoles state cr desired)"
    unfolding in_ReconcileRoles_iff using x nomatch by blast
  fix role old ref realm msg
  assume u: "UpdateClientRoleAction role old ref realm msg
               \<in> set (ReconcileRoles state cr ([] :: 'o ClusterAction list))"
  note f = update_in_roleActions [OF u]
  from f c show "role \<noteq> x" by auto
  show "old \<noteq> x"
  proof (cases "ID role = ''''")
    case True
    with f idx show ?thesis by auto
  next
    case False
    with f have o: "old = lookupRole (existingRoleByID (Roles state)) (ID role)" by auto
    from f False have "ID role \<in> ID ` set (Roles state)"
      using matched_by_id [OF assms] by blast
    from lookupRole_hit [OF this] o have "ID old = ID role" by simp
    with f c show ?thesis by auto
  qed
next
  fix d
  assume d: "d \<in> set (Spec_Roles cr)"
    and c: "ID d \<noteq> '''' \<and> ID d \<notin> ID ` set (Roles state)"
  have nomatch: "\<not> hasMatchingRole (Roles state) d"
    using c assms by (force simp: hasMatchingRole_iff roleMatches_def image_iff split: if_splits)
  show "getCreatedClientRoleState state cr d \<in> set (ReconcileRoles state cr desired)"
    unfolding in_ReconcileRoles_iff using d nomatch by blast
  fix role old ref realm msg
  assume u: "UpdateClientRoleAction role old ref realm msg
               \<in> set (ReconcileRoles state cr ([] :: 'o ClusterAction list))"
  note f = update_in_roleActions [OF u]
  from f nomatch show "role \<noteq> d" by auto
  show "old \<noteq> d"
  proof (cases "ID role = ''''")
    case True
    with f c show ?thesis by auto
  next
    case False
    with f have o: "old = lookupRole (existingRoleByID (Roles state)) (ID role)" by auto
    from f False have i: "ID role \<in> ID ` set (Roles state)"
      using matched_by_id [OF assms] by blast
    from lookupRole_hit [OF i] o have "ID old = ID role" by simp
    with i c show ?thesis by auto
  qed
qed

text \<open>
  The observed role (1, a) against the desired role (2, a): the name is shared, the ids
  differ, and the result holds the delete of (1, a) and the create of (2, a).
\<close>

theorem id_mismatch_delete_create_witness:
  "DeleteClientRoleAction (mkRole ''1'' ''a'') (mkCr None [mkRole ''2'' ''a'']) ''realm''
       ''delete client role ns/cid/a''
     \<in> set (ReconcileRoles (mkState [mkRole ''1'' ''a'']) (mkCr None [mkRole ''2'' ''a''])
              ([] :: unit ClusterAction list)) \<and>
   CreateClientRoleAction (mkRole ''2'' ''a'') (mkCr None [mkRole ''2'' ''a'']) ''realm''
       ''create client role ns/cid/a''
     \<in> set (ReconcileRoles (mkState [mkRole ''1'' ''a'']) (mkCr None [mkRole ''2'' ''a''])
              ([] :: unit ClusterAction list))"
proof -
  let ?s = "mkState [mkRole ''1'' ''a'']"
  let ?c = "mkCr None [mkRole ''2'' ''a'']"
  have h: "\<forall>x\<in>set (Roles ?s). ID x \<noteq> ''''" by simp
  from id_mismatch_delete_create [OF h, of ?c "[] :: unit ClusterAction list"]
  show ?thesis
    by (simp add: getDeletedClientRoleState_def getCreatedClientRoleState_def)
qed

section \<open>Matched roles with an id\<close>

text \<open>
  C4. The data model gives every observed role a non-empty id. Under it, let
  \<open>rolesMatching\<close> be the desired roles that match an observed role. For every role of
  \<open>rolesMatching\<close> with a non-empty id, the result of \<open>ReconcileRoles\<close> holds an
  \<open>UpdateClientRoleAction\<close> to that role whose previous role is an observed role with
  the same id (the last one in the observed order, if several have it). For the observed
  role (1, a) and the desired role (1, b), the role actions are the single update of
  (1, b) with previous (1, a): there is no create and no delete.
\<close>

theorem matched_with_id_update:
  fixes desired :: "'o ClusterAction list"
  assumes "\<forall>x\<in>set (Roles state). ID x \<noteq> ''''"
    and "rolesMatching = snd (roleDifferenceIntersection (Spec_Roles cr) (Roles state))"
  shows "(\<forall>d\<in>set rolesMatching. ID d \<noteq> '''' \<longrightarrow>
            (\<exists>x\<in>set (Roles state). ID x = ID d \<and>
               x = last (filter (\<lambda>r. ID r = ID d) (Roles state)) \<and>
               UpdateClientRoleAction d x cr (Realm_Spec_Realm_Realm state)
                 (''update client role '' @ Namespace cr @ ''/'' @ Spec_Client_ClientID cr @
                  ''/'' @ Name x)
                 \<in> set (ReconcileRoles state cr desired))) \<and>
         (Roles state = [mkRole ''1'' ''a''] \<and> Spec_Roles cr = [mkRole ''1'' ''b''] \<longrightarrow>
            ReconcileRoles state cr ([] :: 'o ClusterAction list) =
              [UpdateClientRoleAction (mkRole ''1'' ''b'') (mkRole ''1'' ''a'') cr
                 (Realm_Spec_Realm_Realm state)
                 (''update client role '' @ Namespace cr @ ''/'' @ Spec_Client_ClientID cr @
                  ''/a'')])"
proof (intro conjI ballI impI)
  have rm: "rolesMatching = filter (hasMatchingRole (Roles state)) (Spec_Roles cr)"
    using assms(2) by (simp add: rolesMatching_eq)
  {
    fix d
    assume m: "d \<in> set rolesMatching" and c: "ID d \<noteq> ''''"
    let ?x = "lookupRole (existingRoleByID (Roles state)) (ID d)"
    from m c have i: "ID d \<in> ID ` set (Roles state)"
      using matched_by_id [OF assms(1), of d] by (simp add: rm)
    from i have hit: "?x \<in> set (Roles state) \<and> ID ?x = ID d"
      using lookupRole_hit by blast
    have l: "?x = last (filter (\<lambda>r. ID r = ID d) (Roles state))"
      using i by (simp add: lookupRole_def existingRoleByID_last)
    have "getUpdatedClientRoleState state cr d ?x \<in> set (ReconcileRoles state cr desired)"
      unfolding in_ReconcileRoles_iff using m c by (auto simp: rm)
    then have "UpdateClientRoleAction d ?x cr (Realm_Spec_Realm_Realm state)
                 (''update client role '' @ Namespace cr @ ''/'' @ Spec_Client_ClientID cr @
                  ''/'' @ Name ?x)
                 \<in> set (ReconcileRoles state cr desired)"
      by (simp add: getUpdatedClientRoleState_def)
    with hit l
    show "\<exists>x\<in>set (Roles state). ID x = ID d \<and>
               x = last (filter (\<lambda>r. ID r = ID d) (Roles state)) \<and>
               UpdateClientRoleAction d x cr (Realm_Spec_Realm_Realm state)
                 (''update client role '' @ Namespace cr @ ''/'' @ Spec_Client_ClientID cr @
                  ''/'' @ Name x)
                 \<in> set (ReconcileRoles state cr desired)"
      by metis
  }
  assume "Roles state = [mkRole ''1'' ''a''] \<and> Spec_Roles cr = [mkRole ''1'' ''b'']"
  then show "ReconcileRoles state cr ([] :: 'o ClusterAction list) =
              [UpdateClientRoleAction (mkRole ''1'' ''b'') (mkRole ''1'' ''a'') cr
                 (Realm_Spec_Realm_Realm state)
                 (''update client role '' @ Namespace cr @ ''/'' @ Spec_Client_ClientID cr @
                  ''/a'')]"
    by (auto simp: ReconcileRoles_eq roleMatches_def existingRoleByID_def lookupRole_def
        getUpdatedClientRoleState_def)
qed

text \<open>
  The rename example evaluated, and the update of a matched role at an observed list in
  which two roles carry its id: the previous role is the last of them.
\<close>

theorem matched_with_id_update_witness:
  "ReconcileRoles (mkState [mkRole ''1'' ''a'']) (mkCr None [mkRole ''1'' ''b'']) [] =
     [UpdateClientRoleAction (mkRole ''1'' ''b'') (mkRole ''1'' ''a'')
        (mkCr None [mkRole ''1'' ''b'']) ''realm'' ''update client role ns/cid/a''
      :: unit ClusterAction] \<and>
   UpdateClientRoleAction (mkRole ''1'' ''b'') (mkRole ''1'' ''c'')
       (mkCr None [mkRole ''1'' ''b'']) ''realm'' ''update client role ns/cid/c''
     \<in> set (ReconcileRoles (mkState [mkRole ''1'' ''a'', mkRole ''1'' ''c''])
              (mkCr None [mkRole ''1'' ''b'']) ([] :: unit ClusterAction list))"
proof -
  let ?s1 = "mkState [mkRole ''1'' ''a'']"
  let ?c = "mkCr None [mkRole ''1'' ''b'']"
  let ?s2 = "mkState [mkRole ''1'' ''a'', mkRole ''1'' ''c'']"
  have h1: "\<forall>x\<in>set (Roles ?s1). ID x \<noteq> ''''" by simp
  have h2: "\<forall>x\<in>set (Roles ?s2). ID x \<noteq> ''''" by simp
  note t1 = matched_with_id_update [OF h1 refl, of ?c "[] :: unit ClusterAction list"]
  note t2 = matched_with_id_update [OF h2 refl, of ?c "[] :: unit ClusterAction list"]
  have m: "mkRole ''1'' ''b'' \<in> set (snd (roleDifferenceIntersection (Spec_Roles ?c) (Roles ?s2)))"
    by (simp add: roleDifferenceIntersection_def roleMatches_def)
  from t1 have a: "ReconcileRoles ?s1 ?c [] =
     [UpdateClientRoleAction (mkRole ''1'' ''b'') (mkRole ''1'' ''a'') ?c ''realm''
        ''update client role ns/cid/a'' :: unit ClusterAction]"
    by simp
  from t2 m have "\<exists>x\<in>set (Roles ?s2). ID x = ID (mkRole ''1'' ''b'') \<and>
      x = last (filter (\<lambda>r. ID r = ID (mkRole ''1'' ''b'')) (Roles ?s2)) \<and>
      UpdateClientRoleAction (mkRole ''1'' ''b'') x ?c (Realm_Spec_Realm_Realm ?s2)
        (''update client role '' @ Namespace ?c @ ''/'' @ Spec_Client_ClientID ?c @ ''/'' @ Name x)
        \<in> set (ReconcileRoles ?s2 ?c ([] :: unit ClusterAction list))"
    by (elim conjE) (drule bspec [where x = "mkRole ''1'' ''b''"], assumption, simp)
  then have b: "UpdateClientRoleAction (mkRole ''1'' ''b'') (mkRole ''1'' ''c'') ?c ''realm''
        ''update client role ns/cid/c''
        \<in> set (ReconcileRoles ?s2 ?c ([] :: unit ClusterAction list))"
    by simp
  from a b show ?thesis by simp
qed

section \<open>Order of the role actions\<close>

lemma roleActions_split:
  "\<exists>ds rest. ReconcileRoles state cr ([] :: 'o ClusterAction list) = ds @ rest \<and>
     (\<forall>a\<in>set ds. \<not> isUpdateRole a \<and> \<not> isCreateRole a) \<and>
     (\<forall>a\<in>set rest. \<not> isDeleteRole a)"
proof -
  let ?ds = "map (getDeletedClientRoleState state cr)
               (filter (\<lambda>r. \<not> hasMatchingRole (Spec_Roles cr) r) (Roles state)) :: 'o ClusterAction list"
  let ?rest = "drop (length ?ds) (ReconcileRoles state cr ([] :: 'o ClusterAction list))"
  have e: "ReconcileRoles state cr ([] :: 'o ClusterAction list) = ?ds @ ?rest"
    by (simp add: ReconcileRoles_eq)
  have d: "\<forall>a\<in>set ?ds. \<not> isUpdateRole a \<and> \<not> isCreateRole a"
    by (auto simp: getDeletedClientRoleState_def)
  have r: "\<forall>a\<in>set ?rest. \<not> isDeleteRole a"
    by (auto simp: ReconcileRoles_eq getUpdatedClientRoleState_def getCreatedClientRoleState_def)
  from e d r show ?thesis by blast
qed

text \<open>
  C10. In the list of role actions that \<open>ReconcileRoles\<close> emits, every delete action
  stands at a smaller index than every update action and every create action. For the
  observed role (1, a) and the desired role (2, a), which share a name and not an id,
  the list is the delete of (1, a) followed by the create of (2, a).
\<close>

theorem deletes_precede:
  "(\<forall>i j. i < length (ReconcileRoles state cr ([] :: 'o ClusterAction list)) \<and>
           j < length (ReconcileRoles state cr ([] :: 'o ClusterAction list)) \<and>
           isDeleteRole (ReconcileRoles state cr ([] :: 'o ClusterAction list) ! i) \<and>
           (isUpdateRole (ReconcileRoles state cr ([] :: 'o ClusterAction list) ! j) \<or>
            isCreateRole (ReconcileRoles state cr ([] :: 'o ClusterAction list) ! j)) \<longrightarrow>
           i < j) \<and>
   (Roles state = [mkRole ''1'' ''a''] \<and> Spec_Roles cr = [mkRole ''2'' ''a''] \<longrightarrow>
      ReconcileRoles state cr ([] :: 'o ClusterAction list) =
        [getDeletedClientRoleState state cr (mkRole ''1'' ''a''),
         getCreatedClientRoleState state cr (mkRole ''2'' ''a'')])"
proof (intro conjI allI impI)
  fix i j
  let ?R = "ReconcileRoles state cr ([] :: 'o ClusterAction list)"
  assume a: "i < length ?R \<and> j < length ?R \<and> isDeleteRole (?R ! i) \<and>
             (isUpdateRole (?R ! j) \<or> isCreateRole (?R ! j))"
  from roleActions_split [of state cr] obtain ds rest where
    e: "?R = ds @ rest" and d: "\<forall>a\<in>set ds. \<not> isUpdateRole a \<and> \<not> isCreateRole a"
    and r: "\<forall>a\<in>set rest. \<not> isDeleteRole a"
    by blast
  have i: "i < length ds"
  proof (rule ccontr)
    assume n: "\<not> i < length ds"
    from e have len: "length ?R = length ds + length rest" by simp
    from a len n have k: "i - length ds < length rest" by linarith
    from e n have "?R ! i = rest ! (i - length ds)"
      by (simp add: nth_append)
    with nth_mem [OF k] have "?R ! i \<in> set rest" by simp
    with r a show False by blast
  qed
  have j: "\<not> j < length ds"
  proof
    assume k: "j < length ds"
    with e have "?R ! j = ds ! j"
      by (simp add: nth_append)
    with nth_mem [OF k] have "?R ! j \<in> set ds" by simp
    with d a show False by blast
  qed
  from i j show "i < j" by simp
next
  assume "Roles state = [mkRole ''1'' ''a''] \<and> Spec_Roles cr = [mkRole ''2'' ''a'']"
  then show "ReconcileRoles state cr ([] :: 'o ClusterAction list) =
        [getDeletedClientRoleState state cr (mkRole ''1'' ''a''),
         getCreatedClientRoleState state cr (mkRole ''2'' ''a'')]"
    by (auto simp: ReconcileRoles_eq roleMatches_def)
qed

text \<open>
  The name collision evaluated: the delete is at index 0 and the create at index 1.
\<close>

theorem deletes_precede_witness:
  "ReconcileRoles (mkState [mkRole ''1'' ''a'']) (mkCr None [mkRole ''2'' ''a'']) [] =
     [DeleteClientRoleAction (mkRole ''1'' ''a'') (mkCr None [mkRole ''2'' ''a'']) ''realm''
        ''delete client role ns/cid/a'',
      CreateClientRoleAction (mkRole ''2'' ''a'') (mkCr None [mkRole ''2'' ''a'']) ''realm''
        ''create client role ns/cid/a'' :: unit ClusterAction] \<and>
   (0 :: nat) < 1"
proof -
  let ?s = "mkState [mkRole ''1'' ''a'']"
  let ?c = "mkCr None [mkRole ''2'' ''a'']"
  note t = deletes_precede [of ?s ?c, where 'o = unit]
  from t have e: "ReconcileRoles ?s ?c [] =
     [getDeletedClientRoleState ?s ?c (mkRole ''1'' ''a''),
      getCreatedClientRoleState ?s ?c (mkRole ''2'' ''a'') :: unit ClusterAction]"
    by simp
  from t have "0 < length (ReconcileRoles ?s ?c ([] :: unit ClusterAction list)) \<and>
           1 < length (ReconcileRoles ?s ?c ([] :: unit ClusterAction list)) \<and>
           isDeleteRole (ReconcileRoles ?s ?c ([] :: unit ClusterAction list) ! 0) \<and>
           (isUpdateRole (ReconcileRoles ?s ?c ([] :: unit ClusterAction list) ! 1) \<or>
            isCreateRole (ReconcileRoles ?s ?c ([] :: unit ClusterAction list) ! 1)) \<longrightarrow>
           (0 :: nat) < 1"
    by blast
  moreover have "0 < length (ReconcileRoles ?s ?c ([] :: unit ClusterAction list)) \<and>
           1 < length (ReconcileRoles ?s ?c ([] :: unit ClusterAction list)) \<and>
           isDeleteRole (ReconcileRoles ?s ?c ([] :: unit ClusterAction list) ! 0) \<and>
           (isUpdateRole (ReconcileRoles ?s ?c ([] :: unit ClusterAction list) ! 1) \<or>
            isCreateRole (ReconcileRoles ?s ?c ([] :: unit ClusterAction list) ! 1))"
    unfolding e by (simp add: getDeletedClientRoleState_def getCreatedClientRoleState_def)
  ultimately have "(0 :: nat) < 1" by blast
  with e show ?thesis
    by (simp add: getDeletedClientRoleState_def getCreatedClientRoleState_def)
qed

section \<open>Identical desired and observed roles\<close>

lemma same_pair_matches:
  assumes "x \<in> set roles" and "ID x = ID r" and "Name x = Name r"
  shows "hasMatchingRole roles r"
  using assms by (auto simp: hasMatchingRole_iff roleMatches_def)

lemma pairs_subset:
  assumes "(\<lambda>r. (ID r, Name r)) ` set xs = (\<lambda>r. (ID r, Name r)) ` set ys" and "x \<in> set xs"
  shows "\<exists>y\<in>set ys. ID y = ID x \<and> Name y = Name x"
proof -
  from assms(2) have "(ID x, Name x) \<in> (\<lambda>r. (ID r, Name r)) ` set xs" by (rule imageI)
  with assms(1) have "(ID x, Name x) \<in> (\<lambda>r. (ID r, Name r)) ` set ys" by simp
  then show ?thesis by auto
qed

lemma distinct_names_eq:
  assumes "distinct (map Name xs)" and "x \<in> set xs" and "y \<in> set xs" and "Name x = Name y"
  shows "x = y"
  using assms by (auto simp: distinct_map inj_on_def)

lemma update_not_other: "isUpdateRole a \<Longrightarrow> \<not> isCreateRole a \<and> \<not> isDeleteRole a"
  by (cases a) auto

text \<open>
  C6. The data model gives every observed role a non-empty id and makes the names of
  the desired roles unique; either of the two is enough here. Assume one of them, and
  that the desired and the observed roles have the same (id, name) pairs. Then every
  role action that \<open>ReconcileRoles\<close> emits is an update: none is a create and none is a
  delete, and there are as many of them as desired roles. The emitted role actions are
  a function of the state and the custom resource alone: whatever action list a run starts from, it appends the same role actions to it,
  so a second run on the same inputs gives the same list.
\<close>

theorem identical_roles_only_updates:
  fixes desired :: "'o ClusterAction list"
  assumes "(\<lambda>r. (ID r, Name r)) ` set (Spec_Roles cr) = (\<lambda>r. (ID r, Name r)) ` set (Roles state)"
    and "(\<forall>x\<in>set (Roles state). ID x \<noteq> '''') \<or> distinct (map Name (Spec_Roles cr))"
  shows "(\<forall>a\<in>set (ReconcileRoles state cr ([] :: 'o ClusterAction list)). isUpdateRole a) \<and>
         filter isCreateRole (ReconcileRoles state cr ([] :: 'o ClusterAction list)) = [] \<and>
         filter isDeleteRole (ReconcileRoles state cr ([] :: 'o ClusterAction list)) = [] \<and>
         length (ReconcileRoles state cr ([] :: 'o ClusterAction list)) = length (Spec_Roles cr) \<and>
         ReconcileRoles state cr desired = desired @ ReconcileRoles state cr []"
proof -
  let ?R = "ReconcileRoles state cr ([] :: 'o ClusterAction list)"
  let ?byID = "existingRoleByID (Roles state)"
  let ?renamed = "renamedOldNames ?byID (filter (hasMatchingRole (Roles state)) (Spec_Roles cr))"
  have obs: "hasMatchingRole (Spec_Roles cr) x" if "x \<in> set (Roles state)" for x
    using pairs_subset [OF assms(1) [symmetric] that] same_pair_matches by blast
  have des: "hasMatchingRole (Roles state) d" if "d \<in> set (Spec_Roles cr)" for d
    using pairs_subset [OF assms(1) that] same_pair_matches by blast
  have norename: "?renamed (Name d) = None"
    if d: "d \<in> set (Spec_Roles cr)" and noid: "ID d = ''''" for d
  proof (rule ccontr)
    assume "?renamed (Name d) \<noteq> None"
    then obtain r where r: "r \<in> set (Spec_Roles cr)" "ID r \<noteq> ''''"
      and n: "Name (lookupRole ?byID (ID r)) = Name d"
      unfolding renamedOldNames_iff by auto
    from pairs_subset [OF assms(1) r(1)] have i: "ID r \<in> ID ` set (Roles state)"
      by (metis imageI)
    let ?old = "lookupRole ?byID (ID r)"
    from lookupRole_hit [OF i] have old: "?old \<in> set (Roles state)" "ID ?old = ID r"
      by simp_all
    from pairs_subset [OF assms(1) [symmetric] old(1)] obtain d'
      where d': "d' \<in> set (Spec_Roles cr)" "ID d' = ID ?old" "Name d' = Name ?old"
      by blast
    from assms(2) show False
    proof
      assume "\<forall>x\<in>set (Roles state). ID x \<noteq> ''''"
      moreover from pairs_subset [OF assms(1) d] obtain y
        where "y \<in> set (Roles state)" "ID y = ID d" by blast
      ultimately show False using noid by auto
    next
      assume "distinct (map Name (Spec_Roles cr))"
      from distinct_names_eq [OF this d d'(1)] n d'(3) have "d = d'" by simp
      with d'(2) old(2) r(2) noid show False by simp
    qed
  qed
  have all: "filter (hasMatchingRole (Roles state)) (Spec_Roles cr) = Spec_Roles cr"
    using des by simp
  have upd: "isUpdateRole a" if "a \<in> set ?R" for a
    using that norename unfolding in_ReconcileRoles_iff all
    by (auto simp: obs des getUpdatedClientRoleState_def)
  then have "filter isCreateRole ?R = []" and "filter isDeleteRole ?R = []"
    by (auto simp: filter_empty_conv dest: update_not_other)
  moreover have "length ?R = length (Spec_Roles cr)"
  proof -
    have nodel: "filter (\<lambda>r. \<not> hasMatchingRole (Spec_Roles cr) r) (Roles state) = []"
      using obs by (simp add: filter_empty_conv)
    have nonew: "filter (\<lambda>r. \<not> hasMatchingRole (Roles state) r) (Spec_Roles cr) = []"
      using des by (simp add: filter_empty_conv)
    have "length ?R = length (filter (\<lambda>r. ID r \<noteq> '''') (Spec_Roles cr)) +
                      length (filter (\<lambda>r. \<not> ID r \<noteq> '''') (Spec_Roles cr))"
      unfolding ReconcileRoles_eq all nodel nonew by simp
    then show ?thesis
      by (simp only: sum_length_filter_compl)
  qed
  ultimately show ?thesis
    using upd ReconcileRoles_append [of state cr desired] by blast
qed

text \<open>
  Two inputs with the same roles on both sides. With ids on every role, the result is
  two updates, each with the observed role as previous. With unique names and a role
  without an id, the result has neither a create nor a delete.
\<close>

theorem identical_roles_only_updates_witness:
  "filter isCreateRole (ReconcileRoles (mkState [mkRole ''1'' ''a'', mkRole ''2'' ''b''])
      (mkCr None [mkRole ''1'' ''a'', mkRole ''2'' ''b'']) ([] :: unit ClusterAction list)) = [] \<and>
   filter isDeleteRole (ReconcileRoles (mkState [mkRole ''1'' ''a'', mkRole ''2'' ''b''])
      (mkCr None [mkRole ''1'' ''a'', mkRole ''2'' ''b'']) ([] :: unit ClusterAction list)) = [] \<and>
   ReconcileRoles (mkState [mkRole ''1'' ''a'', mkRole ''2'' ''b''])
      (mkCr None [mkRole ''1'' ''a'', mkRole ''2'' ''b'']) ([] :: unit ClusterAction list) =
     [UpdateClientRoleAction (mkRole ''1'' ''a'') (mkRole ''1'' ''a'')
        (mkCr None [mkRole ''1'' ''a'', mkRole ''2'' ''b'']) ''realm'' ''update client role ns/cid/a'',
      UpdateClientRoleAction (mkRole ''2'' ''b'') (mkRole ''2'' ''b'')
        (mkCr None [mkRole ''1'' ''a'', mkRole ''2'' ''b'']) ''realm'' ''update client role ns/cid/b''] \<and>
   filter isCreateRole (ReconcileRoles (mkState [mkRole '''' ''a'', mkRole ''2'' ''b''])
      (mkCr None [mkRole '''' ''a'', mkRole ''2'' ''b'']) ([] :: unit ClusterAction list)) = [] \<and>
   filter isDeleteRole (ReconcileRoles (mkState [mkRole '''' ''a'', mkRole ''2'' ''b''])
      (mkCr None [mkRole '''' ''a'', mkRole ''2'' ''b'']) ([] :: unit ClusterAction list)) = []"
proof -
  let ?s = "mkState [mkRole ''1'' ''a'', mkRole ''2'' ''b'']"
  let ?c = "mkCr None [mkRole ''1'' ''a'', mkRole ''2'' ''b'']"
  let ?s' = "mkState [mkRole '''' ''a'', mkRole ''2'' ''b'']"
  let ?c' = "mkCr None [mkRole '''' ''a'', mkRole ''2'' ''b'']"
  have h1: "(\<lambda>r. (ID r, Name r)) ` set (Spec_Roles ?c) = (\<lambda>r. (ID r, Name r)) ` set (Roles ?s)"
    by simp
  have h2: "(\<forall>x\<in>set (Roles ?s). ID x \<noteq> '''') \<or> distinct (map Name (Spec_Roles ?c))"
    by simp
  have h1': "(\<lambda>r. (ID r, Name r)) ` set (Spec_Roles ?c') = (\<lambda>r. (ID r, Name r)) ` set (Roles ?s')"
    by simp
  have h2': "(\<forall>x\<in>set (Roles ?s'). ID x \<noteq> '''') \<or> distinct (map Name (Spec_Roles ?c'))"
    by simp
  note t = identical_roles_only_updates [OF h1 h2, of "[] :: unit ClusterAction list"]
  note t' = identical_roles_only_updates [OF h1' h2', of "[] :: unit ClusterAction list"]
  have e: "ReconcileRoles ?s ?c ([] :: unit ClusterAction list) =
     [UpdateClientRoleAction (mkRole ''1'' ''a'') (mkRole ''1'' ''a'') ?c ''realm''
        ''update client role ns/cid/a'',
      UpdateClientRoleAction (mkRole ''2'' ''b'') (mkRole ''2'' ''b'') ?c ''realm''
        ''update client role ns/cid/b'']"
    by (simp add: ReconcileRoles_eq roleMatches_def existingRoleByID_def lookupRole_def
        getUpdatedClientRoleState_def)
  from t t' e show ?thesis by blast
qed

section \<open>Every role is routed once\<close>

lemma payloads [simp]:
  "deletedPayload (getDeletedClientRoleState state cr r) = Some r"
  "newPayload (getDeletedClientRoleState state cr r) = None"
  "oldPayload (getDeletedClientRoleState state cr r) = None"
  "isCreateRole (getDeletedClientRoleState state cr r) = False"
  "deletedPayload (getCreatedClientRoleState state cr r) = None"
  "newPayload (getCreatedClientRoleState state cr r) = Some r"
  "oldPayload (getCreatedClientRoleState state cr r) = None"
  "isCreateRole (getCreatedClientRoleState state cr r) = True"
  "deletedPayload (getUpdatedClientRoleState state cr r old) = None"
  "newPayload (getUpdatedClientRoleState state cr r old) = Some r"
  "oldPayload (getUpdatedClientRoleState state cr r old) = Some old"
  "isCreateRole (getUpdatedClientRoleState state cr r old) = False"
  by (simp_all add: getDeletedClientRoleState_def getCreatedClientRoleState_def
      getUpdatedClientRoleState_def)

lemma count_list_filter_eq: "count_list xs x = length (filter (\<lambda>r. r = x) xs)"
  by (induction xs) auto

lemma deleted_count_gen:
  "length (filter (\<lambda>a. deletedPayload a = Some x)
     (map (getDeletedClientRoleState state cr) (filter (\<lambda>r. \<not> M r) xs) @
      map (\<lambda>r. getUpdatedClientRoleState state cr r (old r)) us @
      map (\<lambda>r. if c r then getCreatedClientRoleState state cr r
                else getUpdatedClientRoleState state cr r r) ns @
      map (getCreatedClientRoleState state cr) cs)) =
   (if M x then 0 else count_list xs x)"
proof -
  have a: "filter (\<lambda>a. deletedPayload a = Some x)
             (map (\<lambda>r. getUpdatedClientRoleState state cr r (old r)) us) = []"
    by (rule filter_map_none) simp
  have b: "filter (\<lambda>a. deletedPayload a = Some x)
             (map (\<lambda>r. if c r then getCreatedClientRoleState state cr r
                else getUpdatedClientRoleState state cr r r) ns) = []"
    by (rule filter_map_none) simp
  have c: "filter (\<lambda>a. deletedPayload a = Some x) (map (getCreatedClientRoleState state cr) cs) = []"
    by (rule filter_map_none) simp
  have d: "length (filter (\<lambda>a. deletedPayload a = Some x)
             (map (getDeletedClientRoleState state cr) (filter (\<lambda>r. \<not> M r) xs))) =
           (if M x then 0 else count_list xs x)"
    by (induction xs) auto
  show ?thesis
    unfolding filter_append a b c using d by simp
qed

lemma deleted_count:
  "length (filter (\<lambda>a. deletedPayload a = Some x) (ReconcileRoles state cr [])) =
     (if hasMatchingRole (Spec_Roles cr) x then 0 else count_list (Roles state) x)"
  unfolding ReconcileRoles_eq append_Nil by (rule deleted_count_gen)

lemma new_count_gen:
  "length (filter (\<lambda>a. newPayload a = Some d)
     (map (\<lambda>r. getUpdatedClientRoleState state cr r (old r))
         (filter (\<lambda>r. ID r \<noteq> '''') (filter M xs)) @
      map (\<lambda>r. if c r then getCreatedClientRoleState state cr r
                else getUpdatedClientRoleState state cr r r)
         (filter (\<lambda>r. ID r = '''') (filter M xs)) @
      map (getCreatedClientRoleState state cr) (filter (\<lambda>r. \<not> M r) xs))) =
   count_list xs d"
  by (induction xs) auto

lemma new_count:
  "length (filter (\<lambda>a. newPayload a = Some d) (ReconcileRoles state cr [])) =
     count_list (Spec_Roles cr) d"
proof -
  have "filter (\<lambda>a. newPayload a = Some d)
          (map (getDeletedClientRoleState state cr) ds) = []" for ds
    by (rule filter_map_none) simp
  then show ?thesis
    unfolding ReconcileRoles_eq append_Nil filter_append
    using new_count_gen [of d state cr _ "hasMatchingRole (Roles state)" "Spec_Roles cr"]
    by (simp del: filter_filter)
qed

lemma created_count_gen:
  "\<not> M d \<Longrightarrow>
   length (filter (\<lambda>a. isCreateRole a \<and> newPayload a = Some d)
     (map (\<lambda>r. getUpdatedClientRoleState state cr r (old r))
         (filter (\<lambda>r. ID r \<noteq> '''') (filter M xs)) @
      map (\<lambda>r. if c r then getCreatedClientRoleState state cr r
                else getUpdatedClientRoleState state cr r r)
         (filter (\<lambda>r. ID r = '''') (filter M xs)) @
      map (getCreatedClientRoleState state cr) (filter (\<lambda>r. \<not> M r) xs))) =
   count_list xs d"
  by (induction xs) auto

lemma created_count:
  assumes "\<not> hasMatchingRole (Roles state) d"
  shows "length (filter (\<lambda>a. isCreateRole a \<and> newPayload a = Some d) (ReconcileRoles state cr [])) =
           count_list (Spec_Roles cr) d"
proof -
  have "filter (\<lambda>a. isCreateRole a \<and> newPayload a = Some d)
          (map (getDeletedClientRoleState state cr) ds) = []" for ds
    by (rule filter_map_none) simp
  then show ?thesis
    unfolding ReconcileRoles_eq append_Nil filter_append
    using assms created_count_gen [of "hasMatchingRole (Roles state)" d state cr _ "Spec_Roles cr"]
    by (simp del: filter_filter)
qed


lemma partition_counts:
  "count_list (filter (\<lambda>r. \<not> P r) xs) r + count_list (filter P xs) r = count_list xs r"
  by (induction xs) auto

lemma distinct_count_one: "distinct xs \<Longrightarrow> x \<in> set xs \<Longrightarrow> count_list xs x = 1"
  by (induction xs) auto

text \<open>
  C7. The partition sends every element of its first argument to exactly one of its two
  results: to the second if some element of the other list matches it, to the first if
  none does. Every observed role that matches no desired role is carried by as many
  \<open>DeleteClientRoleAction\<close>s as it has occurrences in the observed list, which is exactly
  one when no observed role is listed twice; it is the new role of no create or update
  action; and, having the non-empty id that the data model gives every observed role, it
  is the previous role of no update action. Every desired role that matches no observed
  role is carried by as many \<open>CreateClientRoleAction\<close>s as it has occurrences in the
  desired list, and every desired role is the new role of as many create and update
  actions together: exactly one each when no desired role is listed twice.
\<close>

theorem every_role_routed_once:
  "(count_list (fst (roleDifferenceIntersection xs ys)) r +
      count_list (snd (roleDifferenceIntersection xs ys)) r = count_list xs r \<and>
    (r \<in> set (fst (roleDifferenceIntersection xs ys)) \<longrightarrow> \<not> hasMatchingRole ys r) \<and>
    (r \<in> set (snd (roleDifferenceIntersection xs ys)) \<longrightarrow> hasMatchingRole ys r)) \<and>
   (\<forall>x\<in>set (Roles state). \<not> hasMatchingRole (Spec_Roles cr) x \<longrightarrow>
      length (filter (\<lambda>a. deletedPayload a = Some x)
                (ReconcileRoles state cr ([] :: 'o ClusterAction list))) =
        count_list (Roles state) x \<and>
      (distinct (Roles state) \<longrightarrow>
         length (filter (\<lambda>a. deletedPayload a = Some x)
                   (ReconcileRoles state cr ([] :: 'o ClusterAction list))) = 1) \<and>
      (\<forall>a\<in>set (ReconcileRoles state cr ([] :: 'o ClusterAction list)). newPayload a \<noteq> Some x) \<and>
      (ID x \<noteq> '''' \<longrightarrow>
         (\<forall>a\<in>set (ReconcileRoles state cr ([] :: 'o ClusterAction list)). oldPayload a \<noteq> Some x))) \<and>
   (\<forall>d\<in>set (Spec_Roles cr). \<not> hasMatchingRole (Roles state) d \<longrightarrow>
      length (filter (\<lambda>a. isCreateRole a \<and> newPayload a = Some d)
                (ReconcileRoles state cr ([] :: 'o ClusterAction list))) =
        count_list (Spec_Roles cr) d \<and>
      (distinct (Spec_Roles cr) \<longrightarrow>
         length (filter (\<lambda>a. isCreateRole a \<and> newPayload a = Some d)
                   (ReconcileRoles state cr ([] :: 'o ClusterAction list))) = 1)) \<and>
   (\<forall>d\<in>set (Spec_Roles cr).
      length (filter (\<lambda>a. newPayload a = Some d)
                (ReconcileRoles state cr ([] :: 'o ClusterAction list))) =
        count_list (Spec_Roles cr) d \<and>
      (distinct (Spec_Roles cr) \<longrightarrow>
         length (filter (\<lambda>a. newPayload a = Some d)
                   (ReconcileRoles state cr ([] :: 'o ClusterAction list))) = 1))"
proof (intro conjI ballI impI)
  show "count_list (fst (roleDifferenceIntersection xs ys)) r +
      count_list (snd (roleDifferenceIntersection xs ys)) r = count_list xs r"
    by (simp add: rdi_eq partition_counts)
  show "\<not> hasMatchingRole ys r" if "r \<in> set (fst (roleDifferenceIntersection xs ys))"
    using that by (simp add: rdi_eq)
  show "hasMatchingRole ys r" if "r \<in> set (snd (roleDifferenceIntersection xs ys))"
    using that by (simp add: rdi_eq)
next
  fix x
  assume x: "x \<in> set (Roles state)" and n: "\<not> hasMatchingRole (Spec_Roles cr) x"
  let ?R = "ReconcileRoles state cr ([] :: 'o ClusterAction list)"
  show c: "length (filter (\<lambda>a. deletedPayload a = Some x) ?R) = count_list (Roles state) x"
    using n by (simp add: deleted_count)
  show "length (filter (\<lambda>a. deletedPayload a = Some x) ?R) = 1" if "distinct (Roles state)"
    using c distinct_count_one [OF that x] by simp
  have notdes: "x \<notin> set (Spec_Roles cr)"
    using n same_role_matches by blast
  {
    fix a
    assume a: "a \<in> set ?R"
    show "newPayload a \<noteq> Some x"
      using a notdes unfolding in_ReconcileRoles_iff by (auto split: if_splits)
  }
  {
    fix a
    assume nz: "ID x \<noteq> ''''" and a: "a \<in> set ?R"
    show "oldPayload a \<noteq> Some x"
    proof
      assume o: "oldPayload a = Some x"
      from a o consider
        (byid) d where "d \<in> set (Spec_Roles cr)" "ID d \<noteq> ''''"
          "x = lookupRole (existingRoleByID (Roles state)) (ID d)"
        | (self) "x \<in> set (Spec_Roles cr)"
        unfolding in_ReconcileRoles_iff by (auto split: if_splits)
      then show False
      proof cases
        case byid
        show False
        proof (cases "ID d \<in> ID ` set (Roles state)")
          case True
          from lookupRole_hit [OF True] byid have "ID x = ID d" by simp
          with byid have "roleMatches d x" by (simp add: roleMatches_def)
          with byid n show False by (auto simp: hasMatchingRole_iff)
        next
          case False
          from lookupRole_miss [OF False] byid nz show False by (simp add: zeroRole_def)
        qed
      next
        case self
        with notdes show False by simp
      qed
    qed
  }
next
  fix d
  assume d: "d \<in> set (Spec_Roles cr)" and n: "\<not> hasMatchingRole (Roles state) d"
  then show c: "length (filter (\<lambda>a. isCreateRole a \<and> newPayload a = Some d)
                (ReconcileRoles state cr ([] :: 'o ClusterAction list))) =
        count_list (Spec_Roles cr) d"
    by (simp add: created_count)
  show "length (filter (\<lambda>a. isCreateRole a \<and> newPayload a = Some d)
                (ReconcileRoles state cr ([] :: 'o ClusterAction list))) = 1"
    if "distinct (Spec_Roles cr)"
    using c distinct_count_one [OF that d] by simp
next
  fix d
  assume d: "d \<in> set (Spec_Roles cr)"
  show c: "length (filter (\<lambda>a. newPayload a = Some d)
                (ReconcileRoles state cr ([] :: 'o ClusterAction list))) =
        count_list (Spec_Roles cr) d"
    by (simp add: new_count)
  show "length (filter (\<lambda>a. newPayload a = Some d)
                (ReconcileRoles state cr ([] :: 'o ClusterAction list))) = 1"
    if "distinct (Spec_Roles cr)"
    using c distinct_count_one [OF that d] by simp
qed

text \<open>
  The observed roles (1, a) and (2, b) against the desired roles (1, c) and (3, d): one
  delete of (2, b), one create of (3, d), one action with new role (1, c), and (2, b)
  is the previous role of no action.
\<close>

theorem every_role_routed_once_witness:
  "length (filter (\<lambda>a. deletedPayload a = Some (mkRole ''2'' ''b''))
     (ReconcileRoles (mkState [mkRole ''1'' ''a'', mkRole ''2'' ''b''])
        (mkCr None [mkRole ''1'' ''c'', mkRole ''3'' ''d'']) ([] :: unit ClusterAction list))) = 1 \<and>
   length (filter (\<lambda>a. isCreateRole a \<and> newPayload a = Some (mkRole ''3'' ''d''))
     (ReconcileRoles (mkState [mkRole ''1'' ''a'', mkRole ''2'' ''b''])
        (mkCr None [mkRole ''1'' ''c'', mkRole ''3'' ''d'']) ([] :: unit ClusterAction list))) = 1 \<and>
   length (filter (\<lambda>a. newPayload a = Some (mkRole ''1'' ''c''))
     (ReconcileRoles (mkState [mkRole ''1'' ''a'', mkRole ''2'' ''b''])
        (mkCr None [mkRole ''1'' ''c'', mkRole ''3'' ''d'']) ([] :: unit ClusterAction list))) = 1 \<and>
   filter (\<lambda>a. oldPayload a = Some (mkRole ''2'' ''b''))
     (ReconcileRoles (mkState [mkRole ''1'' ''a'', mkRole ''2'' ''b''])
        (mkCr None [mkRole ''1'' ''c'', mkRole ''3'' ''d'']) ([] :: unit ClusterAction list)) = [] \<and>
   ReconcileRoles (mkState [mkRole ''1'' ''a'', mkRole ''2'' ''b''])
        (mkCr None [mkRole ''1'' ''c'', mkRole ''3'' ''d'']) ([] :: unit ClusterAction list) =
     [DeleteClientRoleAction (mkRole ''2'' ''b'') (mkCr None [mkRole ''1'' ''c'', mkRole ''3'' ''d''])
        ''realm'' ''delete client role ns/cid/b'',
      UpdateClientRoleAction (mkRole ''1'' ''c'') (mkRole ''1'' ''a'')
        (mkCr None [mkRole ''1'' ''c'', mkRole ''3'' ''d'']) ''realm'' ''update client role ns/cid/a'',
      CreateClientRoleAction (mkRole ''3'' ''d'') (mkCr None [mkRole ''1'' ''c'', mkRole ''3'' ''d''])
        ''realm'' ''create client role ns/cid/d'']"
proof -
  let ?s = "mkState [mkRole ''1'' ''a'', mkRole ''2'' ''b'']"
  let ?c = "mkCr None [mkRole ''1'' ''c'', mkRole ''3'' ''d'']"
  let ?R = "ReconcileRoles ?s ?c ([] :: unit ClusterAction list)"
  note t = every_role_routed_once [of "Roles ?s" "Spec_Roles ?c" "mkRole ''2'' ''b''" ?s ?c,
      where 'o = unit]
  from t have a: "length (filter (\<lambda>a. deletedPayload a = Some (mkRole ''2'' ''b'')) ?R) = 1"
    by (simp add: roleMatches_def)
  from t have b: "length (filter (\<lambda>a. isCreateRole a \<and> newPayload a = Some (mkRole ''3'' ''d'')) ?R) = 1"
    by (simp add: roleMatches_def)
  from t have c: "length (filter (\<lambda>a. newPayload a = Some (mkRole ''1'' ''c'')) ?R) = 1"
    by (simp add: roleMatches_def)
  from t have "\<forall>a\<in>set ?R. oldPayload a \<noteq> Some (mkRole ''2'' ''b'')"
    by (simp add: roleMatches_def)
  then have d: "filter (\<lambda>a. oldPayload a = Some (mkRole ''2'' ''b'')) ?R = []"
    by (simp add: filter_empty_conv)
  have e: "?R =
     [DeleteClientRoleAction (mkRole ''2'' ''b'') ?c ''realm'' ''delete client role ns/cid/b'',
      UpdateClientRoleAction (mkRole ''1'' ''c'') (mkRole ''1'' ''a'') ?c ''realm''
        ''update client role ns/cid/a'',
      CreateClientRoleAction (mkRole ''3'' ''d'') ?c ''realm'' ''create client role ns/cid/d'']"
    by (auto simp: ReconcileRoles_eq roleMatches_def existingRoleByID_def lookupRole_def
        getDeletedClientRoleState_def getUpdatedClientRoleState_def getCreatedClientRoleState_def)
  from a b c d e show ?thesis by blast
qed

end
